theory Spec2Isabelle
  imports Main
begin

section \<open>JavaScript values of the consent route\<close>

text \<open>
  A form field, a user id, a grant id, a redirect instruction: each is a JavaScript
  value of type \<open>string | undefined\<close> (or \<open>null\<close>), modelled as \<open>string option\<close>.
  The source tests such values for truthiness (\<open>if (x)\<close>, \<open>!x\<close>, \<open>x && ...\<close>):
  \<open>undefined\<close>, \<open>null\<close> and the empty string are falsy, every other string is truthy.
\<close>

fun truthy :: "string option \<Rightarrow> bool" where
  "truthy None = False"
| "truthy (Some s) = (s \<noteq> [])"

text \<open>
  A thrown value is an \<open>Error\<close> carrying its message, or anything else
  (\<open>error instanceof Error\<close> is false for it).
\<close>

datatype thrown = Error string | NonError

fun startsWith :: "string \<Rightarrow> string \<Rightarrow> bool" where
  "startsWith s [] = True"
| "startsWith [] (p # ps) = False"
| "startsWith (c # cs) (p # ps) = (c = p \<and> startsWith cs ps)"

text \<open>\<open>String.prototype.includes\<close>: the pattern occurs somewhere in the string.\<close>

fun includes_str :: "string \<Rightarrow> string \<Rightarrow> bool" where
  "includes_str [] pat = (pat = [])"
| "includes_str (c # cs) pat = (startsWith (c # cs) pat \<or> includes_str cs pat)"

text \<open>\<open>Array.prototype.join(' ')\<close>.\<close>

fun join_sp :: "string list \<Rightarrow> string" where
  "join_sp [] = []"
| "join_sp [x] = x"
| "join_sp (x # y # ys) = x @ '' '' @ join_sp (y # ys)"

text \<open>\<open>String.prototype.split(' ')\<close>: the empty string splits into one empty token.\<close>

fun split_sp :: "string \<Rightarrow> string list" where
  "split_sp [] = [[]]"
| "split_sp (c # cs) =
     (if c = CHR '' '' then [] # split_sp cs
      else (case split_sp cs of [] \<Rightarrow> [[c]] | w # ws \<Rightarrow> (c # w) # ws))"

section \<open>Data model\<close>

record prompt_details =
  missingOIDCScope :: "string list option"
  missingOIDCClaims :: "string list option"
  missingResourceScopes :: "(string \<times> string list) list option"

record prompt =
  prompt_name :: string
  details :: prompt_details

record session =
  session_accountId :: "string option"

text \<open>What \<open>provider.interactionDetails\<close> returns, with the attributes the route reads.\<close>

record interaction =
  prompt :: prompt
  params_client_id :: string
  grantId :: "string option"
  session :: "session option"

text \<open>
  The Grant entity. \<open>grant_accountId\<close> is optional because the service reads it through
  \<open>(grant as any).accountId\<close> and tests it for truthiness. The scope and claim sets are
  kept as token lists, the resource scopes as a map from resource indicator to token list.
\<close>

record grant =
  grant_accountId :: "string option"
  grant_clientId :: "string option"
  openid_scope :: "string list"
  openid_claims :: "string list"
  resources :: "string \<Rightarrow> string list option"
  jti :: "string option"

record login_result =
  accountId :: string
  remember :: bool

record consent_result =
  consent_grantId :: string

text \<open>
  The result object handed to the engine: the keys \<open>login\<close>, \<open>consent\<close>, \<open>error\<close> and
  \<open>error_description\<close>, each present or not.
\<close>

record interaction_result =
  login :: "login_result option"
  consent :: "consent_result option"
  error :: "string option"
  error_description :: "string option"

record form =
  form_consent :: "string option"
  form_uid :: "string option"

text \<open>
  The HTTP response: \<open>NextResponse.json({error, error_description}, {status})\<close> or
  \<open>NextResponse.redirect(url, {status})\<close>.
\<close>

datatype 'url response =
    Json nat string string
  | Redirect 'url nat

text \<open>The calls the route makes on its collaborators, in order.\<close>

datatype event =
    InteractionDetails "string option"
  | GetUserAuth
  | GrantFind string
  | GrantNew string string
  | AddOIDCScope string
  | AddOIDCClaims "string list"
  | AddResourceScope string string
  | GrantSave grant
  | InteractionResult "string option" interaction_result

text \<open>
  The collaborators of one request, as the route sees them: the parsed form, the request's
  origin, the provider engine (interaction lookup, finalize, the Grant store), the auth
  context, the \<open>URL\<close> constructor and the origin corrector. Each call returns its value
  (\<open>Inr\<close>) or throws (\<open>Inl\<close>); \<open>new URL\<close> throws exactly when it returns \<open>None\<close>.
\<close>

record 'url env =
  request_formData :: "thrown + form"
  request_origin :: string
  OIDCService_initialize :: "thrown + unit"
  provider_interactionDetails :: "string option \<Rightarrow> thrown + interaction"
  provider_interactionResult :: "string option \<Rightarrow> interaction_result \<Rightarrow> thrown + string option"
  getUserAuth :: "thrown + string option"
  Grant_find :: "string \<Rightarrow> thrown + grant option"
  Grant_save :: "grant \<Rightarrow> thrown + string"
  new_URL :: "string \<Rightarrow> string \<Rightarrow> 'url option"
  correctOIDCUrl :: "'url \<Rightarrow> thrown + 'url"

section \<open>The Grant's own operations\<close>

text \<open>
  The Grant class belongs to the provider engine; its constructor and its three
  accumulating methods are not part of this repository's sources, and are taken from the
  contract the spec gives for them.
\<close>

text \<open>
  Modelled from the spec: the constructor \<open>new Grant({accountId, clientId})\<close> is missing.
  A Grant is constructible from an account and a client; it is scoped to them, holds
  nothing yet, and has no id until it is saved.
\<close>

definition new_Grant :: "string \<Rightarrow> string \<Rightarrow> grant" where
  "new_Grant a c =
     \<lparr>grant_accountId = Some a, grant_clientId = Some c, openid_scope = [],
      openid_claims = [], resources = (\<lambda>r. None), jti = None\<rparr>"

text \<open>
  Modelled from the spec: how the Grant's methods read a scope string is missing. A scope
  string is a space-joined token set: its tokens are the non-empty words between the
  spaces, so that the empty string adds nothing.
\<close>

definition scope_tokens :: "string \<Rightarrow> string list" where
  "scope_tokens scope = filter (\<lambda>w. w \<noteq> []) (split_sp scope)"

text \<open>
  Modelled from the spec: the merge inside the Grant's methods is missing. Merging has
  set-union semantics: a token that the set already holds is not added again.
\<close>

definition add_token :: "string list \<Rightarrow> string \<Rightarrow> string list" where
  "add_token acc t = (if t \<in> set acc then acc else acc @ [t])"

definition merge_tokens :: "string list \<Rightarrow> string list \<Rightarrow> string list" where
  "merge_tokens old new = foldl add_token old new"

text \<open>
  Modelled from the spec: the method \<open>addOIDCScope\<close> is missing. It merges the tokens of a
  scope string into the Grant's scope set.
\<close>

definition addOIDCScope :: "grant \<Rightarrow> string \<Rightarrow> grant" where
  "addOIDCScope g scope = g\<lparr>openid_scope := merge_tokens (openid_scope g) (scope_tokens scope)\<rparr>"

text \<open>
  Modelled from the spec: the method \<open>addOIDCClaims\<close> is missing. It merges claim names
  into the Grant's claim set.
\<close>

definition addOIDCClaims :: "grant \<Rightarrow> string list \<Rightarrow> grant" where
  "addOIDCClaims g claims = g\<lparr>openid_claims := merge_tokens (openid_claims g) claims\<rparr>"

text \<open>The scope set a grant holds for a resource indicator: empty when it holds none.\<close>

definition resource_scope :: "grant \<Rightarrow> string \<Rightarrow> string list" where
  "resource_scope g r = (case resources g r of None \<Rightarrow> [] | Some ts \<Rightarrow> ts)"

text \<open>
  Modelled from the spec: the method \<open>addResourceScope\<close> is missing. It merges the tokens
  of a scope string into the scope set of the given resource indicator.
\<close>

definition addResourceScope :: "grant \<Rightarrow> string \<Rightarrow> string \<Rightarrow> grant" where
  "addResourceScope g r scope =
     g\<lparr>resources := (resources g)(r \<mapsto> merge_tokens (resource_scope g r) (scope_tokens scope))\<rparr>"

section \<open>The service: \<open>OIDCService.findOrCreateGrants\<close>\<close>

text \<open>
  The first block of the method (\<open>a\<close> stands for the parameter \<open>accountId\<close>, \<open>c\<close> below
  for \<open>clientId\<close>): with a truthy \<open>existingGrantId\<close> the grant is looked up with
  \<open>Grant.find\<close>, and dropped again when it carries a truthy account id other than the
  caller's.
\<close>

definition find_existing ::
  "'url env \<Rightarrow> string \<Rightarrow> string option \<Rightarrow> (thrown + grant option) \<times> event list" where
  "find_existing env a existingGrantId =
     (case existingGrantId of
        None \<Rightarrow> (Inr None, [])
      | Some gid \<Rightarrow>
          if gid = [] then (Inr None, [])
          else (case Grant_find env gid of
                  Inl e \<Rightarrow> (Inl e, [GrantFind gid])
                | Inr None \<Rightarrow> (Inr None, [GrantFind gid])
                | Inr (Some g) \<Rightarrow>
                    if truthy (grant_accountId g) \<and> grant_accountId g \<noteq> Some a
                    then (Inr None, [GrantFind gid])
                    else (Inr (Some g), [GrantFind gid])))"

text \<open>The whole method: without a grant after the first block, a new one is constructed.\<close>

definition findOrCreateGrants ::
  "'url env \<Rightarrow> string \<Rightarrow> string \<Rightarrow> string option \<Rightarrow> (thrown + grant) \<times> event list" where
  "findOrCreateGrants env a c existingGrantId =
     (case find_existing env a existingGrantId of
        (Inl e, evs) \<Rightarrow> (Inl e, evs)
      | (Inr (Some g), evs) \<Rightarrow> (Inr g, evs)
      | (Inr None, evs) \<Rightarrow> (Inr (new_Grant a c), evs @ [GrantNew a c]))"

section \<open>The route: \<open>POST\<close>\<close>

text \<open>The defaults \<open>|| []\<close> and \<open>|| {}\<close>: an absent value is the empty collection.\<close>

definition or_empty :: "'a list option \<Rightarrow> 'a list" where
  "or_empty v = (case v of None \<Rightarrow> [] | Some xs \<Rightarrow> xs)"

text \<open>
  Step 3 of the consent branch: the missing scopes, claims and resource scopes of
  \<open>prompt.details\<close> are added to the grant. After the defaults each of the three values is
  an array or an object, which is truthy also when empty, so each of the three \<open>if\<close>s is
  taken. The resource scopes are visited in the order of \<open>Object.entries\<close>.
\<close>

definition add_resource_scopes :: "grant \<Rightarrow> (string \<times> string list) list \<Rightarrow> grant" where
  "add_resource_scopes g entries =
     foldl (\<lambda>g (indicator, scopes). addResourceScope g indicator (join_sp scopes)) g entries"

definition merge_step :: "prompt_details \<Rightarrow> grant \<Rightarrow> grant" where
  "merge_step d g =
     add_resource_scopes
       (addOIDCClaims (addOIDCScope g (join_sp (or_empty (missingOIDCScope d))))
          (or_empty (missingOIDCClaims d)))
       (or_empty (missingResourceScopes d))"

text \<open>The calls that step 3 makes on the grant.\<close>

definition merge_events :: "prompt_details \<Rightarrow> event list" where
  "merge_events d =
     [AddOIDCScope (join_sp (or_empty (missingOIDCScope d))),
      AddOIDCClaims (or_empty (missingOIDCClaims d))]
     @ map (\<lambda>(indicator, scopes). AddResourceScope indicator (join_sp scopes))
         (or_empty (missingResourceScopes d))"

text \<open>
  How a stretch of the handler ends: with a value, with a thrown exception, or with an
  early \<open>return\<close> of a response.
\<close>

datatype ('a, 'url) outcome = Value 'a | Thrown thrown | Returned "'url response"

text \<open>The four result objects the handler builds.\<close>

definition login_only :: "string \<Rightarrow> interaction_result" where
  "login_only userId =
     \<lparr>login = Some \<lparr>accountId = userId, remember = True\<rparr>, consent = None,
      error = None, error_description = None\<rparr>"

definition consent_only :: "string \<Rightarrow> interaction_result" where
  "consent_only newGrantId =
     \<lparr>login = None, consent = Some \<lparr>consent_grantId = newGrantId\<rparr>,
      error = None, error_description = None\<rparr>"

definition consent_and_login :: "string \<Rightarrow> string \<Rightarrow> interaction_result" where
  "consent_and_login newGrantId userId =
     \<lparr>login = Some \<lparr>accountId = userId, remember = True\<rparr>,
      consent = Some \<lparr>consent_grantId = newGrantId\<rparr>,
      error = None, error_description = None\<rparr>"

definition denied :: interaction_result where
  "denied =
     \<lparr>login = None, consent = None, error = Some ''access_denied'',
      error_description = Some ''User denied the authorization request''\<rparr>"

text \<open>
  \<open>OIDCService.getInteractionResult\<close>: the request context for the interaction is built and
  the result is handed to \<open>provider.interactionResult\<close>, which answers with the redirect
  instruction or throws.
\<close>

definition getInteractionResult ::
  "'url env \<Rightarrow> string option \<Rightarrow> interaction_result \<Rightarrow> (string option, 'url) outcome \<times> event list" where
  "getInteractionResult env uid result =
     (case provider_interactionResult env uid result of
        Inl e \<Rightarrow> (Thrown e, [InteractionResult uid result])
      | Inr s \<Rightarrow> (Value s, [InteractionResult uid result]))"

text \<open>\<open>details?.session?.accountId\<close>.\<close>

definition providerSessionAccountId :: "interaction \<Rightarrow> string option" where
  "providerSessionAccountId d =
     (case session d of None \<Rightarrow> None | Some s \<Rightarrow> session_accountId s)"

text \<open>Step 5 of the consent branch: the result for the saved grant's id.\<close>

definition consent_result_for :: "interaction \<Rightarrow> string \<Rightarrow> string \<Rightarrow> interaction_result" where
  "consent_result_for d userId newGrantId =
     (if truthy (providerSessionAccountId d) \<and> providerSessionAccountId d \<noteq> Some userId
      then consent_and_login newGrantId userId
      else consent_only newGrantId)"

text \<open>The \<open>else\<close> branch of the prompt test: every prompt other than \<open>login\<close>.\<close>

definition consent_branch ::
  "'url env \<Rightarrow> string option \<Rightarrow> string \<Rightarrow> interaction \<Rightarrow> (string option, 'url) outcome \<times> event list" where
  "consent_branch env uid userId d =
     (case findOrCreateGrants env userId (params_client_id d) (grantId d) of
        (Inl e, evs) \<Rightarrow> (Thrown e, evs)
      | (Inr g, evs) \<Rightarrow>
          (let g' = merge_step (details (prompt d)) g;
               evs' = evs @ merge_events (details (prompt d)) @ [GrantSave g']
           in case Grant_save env g' of
                Inl e \<Rightarrow> (Thrown e, evs')
              | Inr newGrantId \<Rightarrow>
                  (case getInteractionResult env uid (consent_result_for d userId newGrantId) of
                     (r, evs'') \<Rightarrow> (r, evs' @ evs''))))"

text \<open>The branch \<open>consent === 'accept'\<close>.\<close>

definition accept_branch ::
  "'url env \<Rightarrow> string option \<Rightarrow> interaction \<Rightarrow> (string option, 'url) outcome \<times> event list" where
  "accept_branch env uid d =
     (case getUserAuth env of
        Inl e \<Rightarrow> (Thrown e, [GetUserAuth])
      | Inr None \<Rightarrow> (Returned (Json 401 ''not_authenticated'' ''User is not authenticated''), [GetUserAuth])
      | Inr (Some userId) \<Rightarrow>
          if userId = [] then
            (Returned (Json 401 ''not_authenticated'' ''User is not authenticated''), [GetUserAuth])
          else if prompt_name (prompt d) = ''login'' then
            (case getInteractionResult env uid (login_only userId) of
               (r, evs) \<Rightarrow> (r, GetUserAuth # evs))
          else
            (case consent_branch env uid userId d of
               (r, evs) \<Rightarrow> (r, GetUserAuth # evs)))"

text \<open>The test of the user's choice, with the \<open>else\<close> branch of a rejection.\<close>

definition decide ::
  "'url env \<Rightarrow> form \<Rightarrow> interaction \<Rightarrow> (string option, 'url) outcome \<times> event list" where
  "decide env f d =
     (if form_consent f = Some ''accept'' then accept_branch env (form_uid f) d
      else getInteractionResult env (form_uid f) denied)"

text \<open>
  From the redirect instruction to the response: a falsy instruction is a server error;
  otherwise the instruction is given to \<open>new URL\<close> with the request's origin as base and the
  result to \<open>correctOIDCUrl\<close>; if either throws, the inner \<open>catch\<close> answers 500.
\<close>

definition redirect_response :: "'url env \<Rightarrow> string option \<Rightarrow> 'url response" where
  "redirect_response env internalRedirectUrlString =
     (case internalRedirectUrlString of
        None \<Rightarrow> Json 500 ''server_error'' ''Internal redirect URL is missing''
      | Some s \<Rightarrow>
          if s = [] then Json 500 ''server_error'' ''Internal redirect URL is missing''
          else (case new_URL env s (request_origin env) of
                  None \<Rightarrow> Json 500 ''server_error'' ''Invalid redirect URL from provider''
                | Some redirectUrl \<Rightarrow>
                    (case correctOIDCUrl env redirectUrl of
                       Inl e \<Rightarrow> Json 500 ''server_error'' ''Invalid redirect URL from provider''
                     | Inr finalRedirectUrl \<Rightarrow> Redirect finalRedirectUrl 303)))"

text \<open>The test of the inner \<open>catch\<close> around the interaction lookup.\<close>

definition session_not_found :: "thrown \<Rightarrow> bool" where
  "session_not_found e =
     (case e of Error message \<Rightarrow> includes_str message ''interaction session not found''
              | NonError \<Rightarrow> False)"

text \<open>
  The body of the outer \<open>try\<close>: it ends with the response it returns (\<open>Inr\<close>) or with
  what it throws (\<open>Inl\<close>).
\<close>

definition POST_try :: "'url env \<Rightarrow> (thrown + 'url response) \<times> event list" where
  "POST_try env =
     (case request_formData env of
        Inl e \<Rightarrow> (Inl e, [])
      | Inr f \<Rightarrow>
          (case OIDCService_initialize env of
             Inl e \<Rightarrow> (Inl e, [])
           | Inr _ \<Rightarrow>
               (case provider_interactionDetails env (form_uid f) of
                  Inl e \<Rightarrow>
                    if session_not_found e then
                      (Inr (Json 400 ''invalid_request''
                         ''Authorization session expired or invalid, please restart the authorization flow''),
                       [InteractionDetails (form_uid f)])
                    else (Inl e, [InteractionDetails (form_uid f)])
                | Inr d \<Rightarrow>
                    (case decide env f d of
                       (Thrown e, evs) \<Rightarrow> (Inl e, InteractionDetails (form_uid f) # evs)
                     | (Returned r, evs) \<Rightarrow> (Inr r, InteractionDetails (form_uid f) # evs)
                     | (Value internalRedirectUrlString, evs) \<Rightarrow>
                         (Inr (redirect_response env internalRedirectUrlString),
                          InteractionDetails (form_uid f) # evs)))))"

text \<open>The handler: whatever the body throws becomes the 500 of the outer \<open>catch\<close>.\<close>

definition POST :: "'url env \<Rightarrow> 'url response \<times> event list" where
  "POST env =
     (case POST_try env of
        (Inr r, evs) \<Rightarrow> (r, evs)
      | (Inl e, evs) \<Rightarrow> (Json 500 ''server_error'' ''Error processing consent'', evs))"

section \<open>The URL constructor\<close>

text \<open>
  Modelled from the spec: the constructor \<open>new URL(input, base)\<close> belongs to the platform and
  is not part of this repository's sources. The spec gives the contract of the step it
  performs: the instruction is resolved against the request's origin if it is relative, an
  absolute instruction keeps its own origin, path and query, and an instruction that does
  not parse as a URL even after resolution fails. A URL has a scheme, a host (with its
  port), a path, a query (empty, or \<open>?\<close> and what follows) and a fragment (empty, or \<open>#\<close>
  and what follows); its origin is the scheme and the host. The parts are kept as they are written: no
  normalisation is modelled.
\<close>

record url =
  url_scheme :: string
  url_host :: string
  url_pathname :: string
  url_search :: string
  url_hash :: string








section \<open>Auxiliary notions for the statements\<close>

text \<open>
  The form was parsed, the service was initialised and the engine knows the interaction:
  the handler got as far as \<open>const { prompt } = details\<close>.
\<close>

definition loaded :: "'url env \<Rightarrow> form \<Rightarrow> interaction \<Rightarrow> bool" where
  "loaded env f d \<longleftrightarrow>
     request_formData env = Inr f \<and> OIDCService_initialize env = Inr () \<and>
     provider_interactionDetails env (form_uid f) = Inr d"

text \<open>The grant already holds every token of one \<open>missingResourceScopes\<close> entry.\<close>

definition covers :: "grant \<Rightarrow> string \<times> string list \<Rightarrow> bool" where
  "covers g e \<longleftrightarrow>
     (case resources g (fst e) of None \<Rightarrow> False
      | Some ts \<Rightarrow> set (scope_tokens (join_sp (snd e))) \<subseteq> set ts)"

text \<open>The tokens that the entries of \<open>missingResourceScopes\<close> carry for one indicator.\<close>

definition tokens_for :: "(string \<times> string list) list \<Rightarrow> string \<Rightarrow> string set" where
  "tokens_for es r = (\<Union>e \<in> set es. if fst e = r then set (scope_tokens (join_sp (snd e))) else {})"

text \<open>
  The error of the provider engine for an interaction it does not know. The engine is not
  part of this repository's sources; in the provider library the error is of class
  \<open>SessionNotFound\<close>, an invalid-request error: its \<open>message\<close> is the error code
  \<open>invalid_request\<close>, and the text \<open>interaction session not found\<close> is its
  \<open>error_description\<close>, a property the handler does not read.
\<close>

definition SessionNotFound :: thrown where
  "SessionNotFound = Error ''invalid_request''"

section \<open>Example requests\<close>

text \<open>
  Concrete collaborators for the examples below. The stand-in for \<open>new URL\<close> takes an
  \<open>https\<close> URL as it is whatever the base (and refuses one without a host), and puts any
  other reference behind the base; the stand-in for the origin corrector moves a URL of the
  internal origin to the public one. The Grant store holds at most one grant, under
  \<open>g1\<close>; saving returns the grant's id, or a new id for an unsaved grant.
\<close>

definition sample_new_URL :: "string \<Rightarrow> string \<Rightarrow> string option" where
  "sample_new_URL input base =
     (if input = ''https://'' then None
      else if startsWith input ''https://'' then Some input
      else if startsWith input ''/'' then Some (base @ input)
      else Some (base @ ''/'' @ input))"

definition sample_correctOIDCUrl :: "string \<Rightarrow> thrown + string" where
  "sample_correctOIDCUrl u =
     (if startsWith u ''http://localhost:3210''
      then Inr (''https://chat.example.com'' @ drop 21 u) else Inr u)"

definition sample_env ::
  "form \<Rightarrow> thrown + interaction \<Rightarrow> thrown + string option \<Rightarrow> grant option \<Rightarrow> string option
     \<Rightarrow> string env" where
  "sample_env f lookup auth stored instruction =
     \<lparr>request_formData = Inr f,
      request_origin = ''http://localhost:3210'',
      OIDCService_initialize = Inr (),
      provider_interactionDetails = (\<lambda>uid. lookup),
      provider_interactionResult = (\<lambda>uid result. Inr instruction),
      getUserAuth = auth,
      Grant_find = (\<lambda>gid. Inr (if gid = ''g1'' then stored else None)),
      Grant_save = (\<lambda>g. Inr (case jti g of None \<Rightarrow> ''g-new'' | Some j \<Rightarrow> j)),
      new_URL = sample_new_URL,
      correctOIDCUrl = sample_correctOIDCUrl\<rparr>"

definition submission :: "string \<Rightarrow> string \<Rightarrow> form" where
  "submission uid choice = \<lparr>form_consent = Some choice, form_uid = Some uid\<rparr>"

definition sample_details :: prompt_details where
  "sample_details =
     \<lparr>missingOIDCScope = Some [''profile'', ''email''],
      missingOIDCClaims = Some [''email''],
      missingResourceScopes = Some [(''urn:api'', [''read'', ''write''])]\<rparr>"

definition sample_interaction :: "string \<Rightarrow> string option \<Rightarrow> session option \<Rightarrow> interaction" where
  "sample_interaction name gid sess =
     \<lparr>prompt = \<lparr>prompt_name = name, details = sample_details\<rparr>,
      params_client_id = ''client-1'', grantId = gid, session = sess\<rparr>"

definition stored_grant :: "string option \<Rightarrow> grant" where
  "stored_grant owner =
     \<lparr>grant_accountId = owner, grant_clientId = Some ''client-1'',
      openid_scope = [''openid'', ''profile''], openid_claims = [],
      resources = (\<lambda>r. None), jti = Some ''g1''\<rparr>"



section \<open>Facts about the handler\<close>

lemma POST_loaded:
  assumes "loaded env f d"
  shows "POST env =
     (case decide env f d of
        (Thrown e, evs) \<Rightarrow>
          (Json 500 ''server_error'' ''Error processing consent'', InteractionDetails (form_uid f) # evs)
      | (Returned r, evs) \<Rightarrow> (r, InteractionDetails (form_uid f) # evs)
      | (Value s, evs) \<Rightarrow> (redirect_response env s, InteractionDetails (form_uid f) # evs))"
  using assms by (simp add: loaded_def POST_def POST_try_def split: prod.splits outcome.splits)

lemma snd_POST_loaded:
  assumes "loaded env f d"
  shows "snd (POST env) = InteractionDetails (form_uid f) # snd (decide env f d)"
  using assms by (simp add: POST_loaded split: prod.splits outcome.splits)

lemma consent_branch_results:
  "InteractionResult uid' r \<in> set (snd (consent_branch env uid userId d)) \<Longrightarrow>
     \<exists>newGrantId. r = consent_result_for d userId newGrantId"
  by (auto simp: consent_branch_def getInteractionResult_def findOrCreateGrants_def
      find_existing_def merge_events_def Let_def
      split: prod.splits sum.splits option.splits if_splits)

lemma consent_branch_ok:
  assumes "findOrCreateGrants env userId (params_client_id d) (grantId d) = (Inr g, evs)"
    and "Grant_save env (merge_step (details (prompt d)) g) = Inr newGrantId"
  shows "snd (consent_branch env uid userId d) =
     evs @ merge_events (details (prompt d)) @
     [GrantSave (merge_step (details (prompt d)) g),
      InteractionResult uid (consent_result_for d userId newGrantId)]"
  using assms
  by (simp add: consent_branch_def getInteractionResult_def Let_def split: sum.splits)

lemma accept_consent_trace:
  assumes "loaded env f d" and "form_consent f = Some ''accept''"
    and "getUserAuth env = Inr (Some userId)" and "userId \<noteq> []"
    and "prompt_name (prompt d) \<noteq> ''login''"
  shows "snd (POST env) =
     InteractionDetails (form_uid f) # GetUserAuth # snd (consent_branch env (form_uid f) userId d)"
  using assms
  by (simp add: snd_POST_loaded decide_def accept_branch_def split: prod.splits)

section \<open>Facts about merging\<close>

lemma set_merge_tokens: "set (merge_tokens old new) = set old \<union> set new"
  unfolding merge_tokens_def
  by (induction new arbitrary: old) (auto simp: add_token_def)

lemma distinct_merge_tokens: "distinct old \<Longrightarrow> distinct (merge_tokens old new)"
  unfolding merge_tokens_def
  by (induction new arbitrary: old) (auto simp: add_token_def)

lemma merge_tokens_absorb: "set new \<subseteq> set old \<Longrightarrow> merge_tokens old new = old"
  unfolding merge_tokens_def
  by (induction new arbitrary: old) (auto simp: add_token_def)

lemma addOIDCScope_absorb:
  "set (scope_tokens s) \<subseteq> set (openid_scope g) \<Longrightarrow> addOIDCScope g s = g"
  by (simp add: addOIDCScope_def merge_tokens_absorb)

lemma addOIDCClaims_absorb:
  "set cs \<subseteq> set (openid_claims g) \<Longrightarrow> addOIDCClaims g cs = g"
  by (simp add: addOIDCClaims_def merge_tokens_absorb)

lemma addResourceScope_absorb:
  assumes "resources g r = Some ts" and "set (scope_tokens s) \<subseteq> set ts"
  shows "addResourceScope g r s = g"
proof -
  have "merge_tokens (resource_scope g r) (scope_tokens s) = ts"
    using assms by (simp add: resource_scope_def merge_tokens_absorb)
  then have "(resources g)(r \<mapsto> merge_tokens (resource_scope g r) (scope_tokens s)) = resources g"
    using assms(1) by (simp add: fun_upd_idem)
  then show ?thesis by (simp add: addResourceScope_def)
qed

lemma add_resource_scopes_Nil: "add_resource_scopes g [] = g"
  by (simp add: add_resource_scopes_def)

lemma add_resource_scopes_Cons:
  "add_resource_scopes g ((i, sc) # es) = add_resource_scopes (addResourceScope g i (join_sp sc)) es"
  by (simp add: add_resource_scopes_def)

lemma add_resource_scopes_absorb:
  "\<forall>e \<in> set es. covers g e \<Longrightarrow> add_resource_scopes g es = g"
proof (induction es)
  case Nil
  show ?case by (simp add: add_resource_scopes_Nil)
next
  case (Cons e es)
  obtain i sc where e: "e = (i, sc)" by (cases e)
  from Cons.prems have "covers g (i, sc)" by (simp add: e)
  then have "addResourceScope g i (join_sp sc) = g"
    by (auto simp: covers_def split: option.splits intro: addResourceScope_absorb)
  with Cons show ?case by (simp add: e add_resource_scopes_Cons)
qed

lemma covers_addResourceScope: "covers g e \<Longrightarrow> covers (addResourceScope g r s) e"
  by (auto simp: covers_def addResourceScope_def resource_scope_def set_merge_tokens
      split: option.splits)

lemma covers_addResourceScope_self: "covers (addResourceScope g i (join_sp sc)) (i, sc)"
  by (simp add: covers_def addResourceScope_def set_merge_tokens)

lemma covers_add_resource_scopes: "covers g e \<Longrightarrow> covers (add_resource_scopes g es) e"
proof (induction es arbitrary: g)
  case Nil
  then show ?case by (simp add: add_resource_scopes_Nil)
next
  case (Cons x es)
  obtain i sc where x: "x = (i, sc)" by (cases x)
  show ?case using Cons by (simp add: x add_resource_scopes_Cons covers_addResourceScope)
qed

lemma add_resource_scopes_covers_all:
  "\<forall>e \<in> set es. covers (add_resource_scopes g es) e"
proof (induction es arbitrary: g)
  case Nil
  show ?case by simp
next
  case (Cons x es)
  obtain i sc where x: "x = (i, sc)" by (cases x)
  have "covers (add_resource_scopes (addResourceScope g i (join_sp sc)) es) (i, sc)"
    by (rule covers_add_resource_scopes) (rule covers_addResourceScope_self)
  with Cons show ?case by (simp add: x add_resource_scopes_Cons)
qed

lemma add_resource_scopes_frame:
  "openid_scope (add_resource_scopes g es) = openid_scope g \<and>
   openid_claims (add_resource_scopes g es) = openid_claims g \<and>
   grant_accountId (add_resource_scopes g es) = grant_accountId g \<and>
   grant_clientId (add_resource_scopes g es) = grant_clientId g \<and>
   jti (add_resource_scopes g es) = jti g"
proof (induction es arbitrary: g)
  case Nil
  show ?case by (simp add: add_resource_scopes_Nil)
next
  case (Cons x es)
  obtain i sc where x: "x = (i, sc)" by (cases x)
  show ?case using Cons[of "addResourceScope g i (join_sp sc)"]
    by (simp add: x add_resource_scopes_Cons addResourceScope_def)
qed

lemma resource_scope_addResourceScope:
  "set (resource_scope (addResourceScope g i s) r) =
     set (resource_scope g r) \<union> (if i = r then set (scope_tokens s) else {})"
  by (auto simp: addResourceScope_def resource_scope_def set_merge_tokens)

lemma set_resource_scope_add_resource_scopes:
  "set (resource_scope (add_resource_scopes g es) r) = set (resource_scope g r) \<union> tokens_for es r"
proof (induction es arbitrary: g)
  case Nil
  show ?case by (simp add: add_resource_scopes_Nil tokens_for_def)
next
  case (Cons x es)
  obtain i sc where x: "x = (i, sc)" by (cases x)
  have "tokens_for (x # es) r = (if i = r then set (scope_tokens (join_sp sc)) else {}) \<union> tokens_for es r"
    by (simp add: tokens_for_def x)
  then show ?case
    by (simp add: x add_resource_scopes_Cons Cons resource_scope_addResourceScope Un_assoc)
qed

lemma distinct_resource_scope_addResourceScope:
  "distinct (resource_scope g r) \<Longrightarrow> distinct (resource_scope (addResourceScope g i s) r)"
  by (auto simp: addResourceScope_def resource_scope_def distinct_merge_tokens)

lemma distinct_resource_scope_add_resource_scopes:
  "distinct (resource_scope g r) \<Longrightarrow> distinct (resource_scope (add_resource_scopes g es) r)"
proof (induction es arbitrary: g)
  case Nil
  then show ?case by (simp add: add_resource_scopes_Nil)
next
  case (Cons x es)
  obtain i sc where x: "x = (i, sc)" by (cases x)
  show ?case using Cons
    by (simp add: x add_resource_scopes_Cons distinct_resource_scope_addResourceScope)
qed

lemma merge_step_scope:
  "openid_scope (merge_step d g) =
     merge_tokens (openid_scope g) (scope_tokens (join_sp (or_empty (missingOIDCScope d))))"
  by (simp add: merge_step_def add_resource_scopes_frame addOIDCClaims_def addOIDCScope_def)

lemma merge_step_claims:
  "openid_claims (merge_step d g) = merge_tokens (openid_claims g) (or_empty (missingOIDCClaims d))"
  by (simp add: merge_step_def add_resource_scopes_frame addOIDCClaims_def addOIDCScope_def)

lemma resource_scope_before_entries:
  "resource_scope (addOIDCClaims (addOIDCScope g s) cs) r = resource_scope g r"
  by (simp add: resource_scope_def addOIDCClaims_def addOIDCScope_def)

lemma merge_step_twice: "merge_step d (merge_step d g) = merge_step d g"
proof -
  let ?g3 = "merge_step d g"
  have 1: "addOIDCScope ?g3 (join_sp (or_empty (missingOIDCScope d))) = ?g3"
    by (rule addOIDCScope_absorb) (simp add: merge_step_scope set_merge_tokens)
  have 2: "addOIDCClaims ?g3 (or_empty (missingOIDCClaims d)) = ?g3"
    by (rule addOIDCClaims_absorb) (simp add: merge_step_claims set_merge_tokens)
  have 3: "add_resource_scopes ?g3 (or_empty (missingResourceScopes d)) = ?g3"
    by (rule add_resource_scopes_absorb) (simp add: merge_step_def add_resource_scopes_covers_all)
  have "merge_step d ?g3 =
      add_resource_scopes
       (addOIDCClaims (addOIDCScope ?g3 (join_sp (or_empty (missingOIDCScope d))))
          (or_empty (missingOIDCClaims d)))
       (or_empty (missingResourceScopes d))"
    by (subst merge_step_def) (rule refl)
  then show ?thesis by (simp only: 1 2 3)
qed

lemma merge_step_resource_set:
  "set (resource_scope (merge_step d g) r) =
     set (resource_scope g r) \<union> tokens_for (or_empty (missingResourceScopes d)) r"
  by (simp add: merge_step_def set_resource_scope_add_resource_scopes resource_scope_before_entries)

lemma merge_step_resource_distinct:
  "distinct (resource_scope g r) \<Longrightarrow> distinct (resource_scope (merge_step d g) r)"
  by (simp add: merge_step_def distinct_resource_scope_add_resource_scopes
      resource_scope_before_entries)

lemma merge_step_owner:
  "grant_accountId (merge_step d g) = grant_accountId g \<and>
   grant_clientId (merge_step d g) = grant_clientId g"
  by (simp add: merge_step_def add_resource_scopes_frame addOIDCClaims_def addOIDCScope_def)

section \<open>Error responses\<close>

lemma lookup_failure_response:
  assumes "request_formData env = Inr f" and "OIDCService_initialize env = Inr u"
    and "provider_interactionDetails env (form_uid f) = Inl e"
  shows "POST env =
    (if session_not_found e
     then Json 400 ''invalid_request''
       ''Authorization session expired or invalid, please restart the authorization flow''
     else Json 500 ''server_error'' ''Error processing consent'',
     [InteractionDetails (form_uid f)])"
  using assms by (simp add: POST_def POST_try_def)

text \<open>
  Claim C5. The claim asks for HTTP 400 with code \<open>invalid_request\<close> when the engine does
  not know the interaction. The handler looks for the text \<open>interaction session not found\<close>
  in the \<open>message\<close> of the thrown error, where the engine's error does not carry it: the
  failed lookup is rethrown to the outer \<open>catch\<close> and answered with HTTP 500 and code
  \<open>server_error\<close>. The lookup is the only call the handler has made: no auth lookup, no
  Grant operation, no finalize call.
\<close>

theorem unknown_uid_answered_500:
  assumes "request_formData env = Inr f" and "OIDCService_initialize env = Inr u"
    and "provider_interactionDetails env (form_uid f) = Inl SessionNotFound"
  shows "POST env =
    (Json 500 ''server_error'' ''Error processing consent'', [InteractionDetails (form_uid f)])"
proof -
  have "\<not> session_not_found SessionNotFound"
    by (simp add: session_not_found_def SessionNotFound_def)
  then show ?thesis using lookup_failure_response [OF assms] by simp
qed

theorem unknown_uid_answered_500_witness:
  "POST (sample_env (submission ''gone'' ''accept'') (Inl SessionNotFound)
           (Inr (Some ''acct-7'')) None (Some ''/oidc/auth/gone'')) =
    (Json 500 ''server_error'' ''Error processing consent'', [InteractionDetails (Some ''gone'')])"
proof -
  let ?env = "sample_env (submission ''gone'' ''accept'') (Inl SessionNotFound)
           (Inr (Some ''acct-7'')) None (Some ''/oidc/auth/gone'')"
  have 1: "request_formData ?env = Inr (submission ''gone'' ''accept'')"
    by (simp add: sample_env_def)
  have 2: "OIDCService_initialize ?env = Inr ()"
    by (simp add: sample_env_def)
  have 3: "provider_interactionDetails ?env (form_uid (submission ''gone'' ''accept'')) =
      Inl SessionNotFound"
    by (simp add: sample_env_def)
  show ?thesis using unknown_uid_answered_500 [OF 1 2 3] by (simp add: submission_def)
qed

text \<open>
  Claim C6. An accept submission for a known interaction, with no user id in the auth
  context, is answered with HTTP 401 and code \<open>not_authenticated\<close>, whatever the prompt;
  the handler has made the interaction lookup and the auth lookup and nothing else.
\<close>

theorem accept_without_user_401:
  assumes "loaded env f d" and "form_consent f = Some ''accept''"
    and "getUserAuth env = Inr userId" and "\<not> truthy userId"
  shows "POST env =
    (Json 401 ''not_authenticated'' ''User is not authenticated'',
     [InteractionDetails (form_uid f), GetUserAuth])"
  using assms by (cases userId) (simp_all add: POST_loaded decide_def accept_branch_def)

theorem accept_without_user_401_witness:
  "POST (sample_env (submission ''u1'' ''accept'')
           (Inr (sample_interaction ''login'' None None)) (Inr None) None (Some ''/oidc/auth/u1'')) =
     (Json 401 ''not_authenticated'' ''User is not authenticated'',
      [InteractionDetails (Some ''u1''), GetUserAuth])
   \<and> POST (sample_env (submission ''u1'' ''accept'')
           (Inr (sample_interaction ''consent'' (Some ''g1'') None)) (Inr None)
           (Some (stored_grant (Some ''acct-7''))) (Some ''/oidc/auth/u1'')) =
     (Json 401 ''not_authenticated'' ''User is not authenticated'',
      [InteractionDetails (Some ''u1''), GetUserAuth])"
proof -
  let ?f = "submission ''u1'' ''accept''"
  let ?e1 = "sample_env ?f (Inr (sample_interaction ''login'' None None)) (Inr None) None
      (Some ''/oidc/auth/u1'')"
  let ?e2 = "sample_env ?f (Inr (sample_interaction ''consent'' (Some ''g1'') None)) (Inr None)
      (Some (stored_grant (Some ''acct-7''))) (Some ''/oidc/auth/u1'')"
  have l1: "loaded ?e1 ?f (sample_interaction ''login'' None None)"
    by (simp add: loaded_def sample_env_def)
  have l2: "loaded ?e2 ?f (sample_interaction ''consent'' (Some ''g1'') None)"
    by (simp add: loaded_def sample_env_def)
  have a: "form_consent ?f = Some ''accept''"
    by (simp add: submission_def)
  have u1: "getUserAuth ?e1 = Inr None" and u2: "getUserAuth ?e2 = Inr None"
    by (simp_all add: sample_env_def)
  have n: "\<not> truthy None"
    by simp
  show ?thesis
    using accept_without_user_401 [OF l1 a u1 n] accept_without_user_401 [OF l2 a u2 n]
    by (simp add: submission_def)
qed

section \<open>The login prompt\<close>

text \<open>
  Claim C8. An accepted submission for a \<open>login\<close> prompt with an authenticated user makes
  three calls: the interaction lookup, the auth lookup, and the finalize call with exactly
  \<open>{login: {accountId: userId, remember: true}}\<close>. No Grant is looked up, constructed,
  changed or saved.
\<close>

theorem login_prompt_accept:
  assumes "loaded env f d" and "form_consent f = Some ''accept''"
    and "getUserAuth env = Inr (Some userId)" and "userId \<noteq> []"
    and "prompt_name (prompt d) = ''login''"
  shows "snd (POST env) =
      [InteractionDetails (form_uid f), GetUserAuth,
       InteractionResult (form_uid f)
         \<lparr>login = Some \<lparr>accountId = userId, remember = True\<rparr>, consent = None,
          error = None, error_description = None\<rparr>]"
  using assms
  by (simp add: snd_POST_loaded decide_def accept_branch_def login_only_def
      getInteractionResult_def split: prod.splits sum.splits)

theorem login_prompt_accept_witness:
  "snd (POST (sample_env (submission ''u1'' ''accept'')
           (Inr (sample_interaction ''login'' (Some ''g1'') None)) (Inr (Some ''acct-7''))
           (Some (stored_grant (Some ''acct-7''))) (Some ''/oidc/auth/u1''))) =
      [InteractionDetails (Some ''u1''), GetUserAuth,
       InteractionResult (Some ''u1'')
         \<lparr>login = Some \<lparr>accountId = ''acct-7'', remember = True\<rparr>, consent = None,
          error = None, error_description = None\<rparr>]"
proof -
  let ?f = "submission ''u1'' ''accept''"
  let ?d = "sample_interaction ''login'' (Some ''g1'') None"
  let ?env = "sample_env ?f (Inr ?d) (Inr (Some ''acct-7''))
      (Some (stored_grant (Some ''acct-7''))) (Some ''/oidc/auth/u1'')"
  have l: "loaded ?env ?f ?d"
    by (simp add: loaded_def sample_env_def)
  have a: "form_consent ?f = Some ''accept''"
    by (simp add: submission_def)
  have u: "getUserAuth ?env = Inr (Some ''acct-7'')"
    by (simp add: sample_env_def)
  have n: "''acct-7'' \<noteq> []"
    by simp
  have p: "prompt_name (prompt ?d) = ''login''"
    by (simp add: sample_interaction_def)
  show ?thesis using login_prompt_accept [OF l a u n p] by (simp add: submission_def)
qed

section \<open>The merge step\<close>

lemma split_sp_word: "CHR '' '' \<notin> set w \<Longrightarrow> split_sp w = [w]"
  by (induction w) auto

lemma split_sp_word_space:
  "CHR '' '' \<notin> set w \<Longrightarrow> split_sp (w @ CHR '' '' # rest) = w # split_sp rest"
  by (induction w) auto

lemma split_sp_join_sp:
  "xs \<noteq> [] \<Longrightarrow> \<forall>x \<in> set xs. CHR '' '' \<notin> set x \<Longrightarrow> split_sp (join_sp xs) = xs"
proof (induction xs rule: join_sp.induct)
  case 1
  then show ?case by simp
next
  case (2 x)
  then show ?case by (simp add: split_sp_word)
next
  case (3 x y ys)
  then show ?case by (simp add: split_sp_word_space)
qed

lemma scope_tokens_join_sp:
  assumes "\<forall>x \<in> set xs. x \<noteq> [] \<and> CHR '' '' \<notin> set x"
  shows "scope_tokens (join_sp xs) = xs"
proof (cases xs)
  case Nil
  then show ?thesis by (simp add: scope_tokens_def)
next
  case (Cons a as)
  then have "split_sp (join_sp xs) = xs"
    using assms by (intro split_sp_join_sp) auto
  moreover have "filter (\<lambda>w. w \<noteq> []) xs = xs"
    using assms by (intro filter_True) auto
  ultimately show ?thesis by (simp add: scope_tokens_def)
qed

text \<open>
  Claim C3. For fixed \<open>prompt.details\<close>, performing the merge step on a grant that has
  already been through it changes nothing: the step is idempotent. The scope set, the claim
  set and every resource's scope set after the step are the union of what the grant held
  and the tokens added (for scope names that are non-empty and free of spaces, the missing
  scopes themselves), and a set without duplicate tokens stays without duplicates.
\<close>

theorem merge_step_idempotent_union:
  "merge_step d (merge_step d g) = merge_step d g
   \<and> set (openid_scope (merge_step d g)) =
       set (openid_scope g) \<union> set (scope_tokens (join_sp (or_empty (missingOIDCScope d))))
   \<and> ((\<forall>x \<in> set (or_empty (missingOIDCScope d)). x \<noteq> [] \<and> CHR '' '' \<notin> set x) \<longrightarrow>
        set (openid_scope (merge_step d g)) = set (openid_scope g) \<union> set (or_empty (missingOIDCScope d)))
   \<and> set (openid_claims (merge_step d g)) =
       set (openid_claims g) \<union> set (or_empty (missingOIDCClaims d))
   \<and> (\<forall>r. set (resource_scope (merge_step d g) r) =
            set (resource_scope g r) \<union> tokens_for (or_empty (missingResourceScopes d)) r)
   \<and> (distinct (openid_scope g) \<longrightarrow> distinct (openid_scope (merge_step d g)))
   \<and> (distinct (openid_claims g) \<longrightarrow> distinct (openid_claims (merge_step d g)))
   \<and> (\<forall>r. distinct (resource_scope g r) \<longrightarrow> distinct (resource_scope (merge_step d g) r))"
proof -
  have "set (openid_scope (merge_step d g)) = set (openid_scope g) \<union> set (or_empty (missingOIDCScope d))"
    if "\<forall>x \<in> set (or_empty (missingOIDCScope d)). x \<noteq> [] \<and> CHR '' '' \<notin> set x"
    using that by (simp add: merge_step_scope set_merge_tokens scope_tokens_join_sp)
  then show ?thesis
    by (simp add: merge_step_twice merge_step_scope merge_step_claims set_merge_tokens
        distinct_merge_tokens merge_step_resource_set merge_step_resource_distinct)
qed

theorem merge_step_idempotent_union_witness:
  "distinct (openid_scope (stored_grant (Some ''acct-7'')))
   \<and> distinct (openid_scope (merge_step sample_details (stored_grant (Some ''acct-7''))))
   \<and> openid_scope (merge_step sample_details (stored_grant (Some ''acct-7''))) =
       [''openid'', ''profile'', ''email'']
   \<and> set (openid_scope (merge_step sample_details (stored_grant (Some ''acct-7'')))) =
       set [''openid'', ''profile''] \<union> set [''profile'', ''email'']
   \<and> resource_scope (merge_step sample_details (stored_grant (Some ''acct-7''))) ''urn:api'' =
       [''read'', ''write'']
   \<and> merge_step sample_details (merge_step sample_details (stored_grant (Some ''acct-7''))) =
       merge_step sample_details (stored_grant (Some ''acct-7''))"
proof -
  let ?g = "stored_grant (Some ''acct-7'')"
  note inst = merge_step_idempotent_union [of sample_details ?g]
  have h: "distinct (openid_scope ?g)"
    by (simp add: stored_grant_def)
  have w: "\<forall>x \<in> set (or_empty (missingOIDCScope sample_details)). x \<noteq> [] \<and> CHR '' '' \<notin> set x"
    by (simp add: sample_details_def or_empty_def)
  have 1: "distinct (openid_scope (merge_step sample_details ?g))"
    using inst h by blast
  have held: "openid_scope ?g = [''openid'', ''profile'']"
    by (simp add: stored_grant_def)
  have missing: "or_empty (missingOIDCScope sample_details) = [''profile'', ''email'']"
    by (simp add: sample_details_def or_empty_def)
  have "set (openid_scope (merge_step sample_details ?g)) =
      set (openid_scope ?g) \<union> set (or_empty (missingOIDCScope sample_details))"
    using inst w by blast
  then have 2: "set (openid_scope (merge_step sample_details ?g)) =
      set [''openid'', ''profile''] \<union> set [''profile'', ''email'']"
    by (simp only: held missing)
  have 3: "merge_step sample_details (merge_step sample_details ?g) = merge_step sample_details ?g"
    using inst by blast
  have 4: "openid_scope (merge_step sample_details ?g) = [''openid'', ''profile'', ''email'']"
    by (simp add: merge_step_scope sample_details_def or_empty_def stored_grant_def
        scope_tokens_def merge_tokens_def add_token_def)
  have 5: "resource_scope (merge_step sample_details ?g) ''urn:api'' = [''read'', ''write'']"
    by (simp add: merge_step_def sample_details_def or_empty_def stored_grant_def
        add_resource_scopes_def addResourceScope_def addOIDCClaims_def addOIDCScope_def
        resource_scope_def scope_tokens_def merge_tokens_def add_token_def)
  from h 1 2 3 4 5 show ?thesis by blast
qed

section \<open>Rejection\<close>

text \<open>
  Claim C4. For a known interaction and a \<open>consent\<close> field other than \<open>accept\<close> (an
  absent field included), whatever the prompt and whoever is logged in, the handler makes
  two calls: the interaction lookup and the finalize call with
  \<open>{error: access_denied, error_description: User denied the authorization request}\<close>.
  There is no auth lookup and no Grant operation. When the engine answers with a redirect
  instruction that resolves to a URL, the response is the 303 redirect; the only JSON
  error the handler can answer here is the 500 \<open>server_error\<close> for an engine that gives
  no usable redirect.
\<close>

theorem deny_resolves_access_denied:
  assumes "loaded env f d" and "form_consent f \<noteq> Some ''accept''"
  shows "snd (POST env) =
           [InteractionDetails (form_uid f),
            InteractionResult (form_uid f)
              \<lparr>login = None, consent = None, error = Some ''access_denied'',
               error_description = Some ''User denied the authorization request''\<rparr>]
       \<and> (\<forall>s u u'. provider_interactionResult env (form_uid f) denied = Inr (Some s) \<and> s \<noteq> [] \<and>
             new_URL env s (request_origin env) = Some u \<and> correctOIDCUrl env u = Inr u' \<longrightarrow>
             fst (POST env) = Redirect u' 303)
       \<and> (\<forall>st e ed. fst (POST env) = Json st e ed \<longrightarrow> st = 500 \<and> e = ''server_error'')"
proof -
  have d: "decide env f d = getInteractionResult env (form_uid f) denied"
    using assms(2) by (simp add: decide_def)
  have 1: "snd (POST env) = [InteractionDetails (form_uid f), InteractionResult (form_uid f) denied]"
    using assms(1) by (simp add: snd_POST_loaded d getInteractionResult_def split: sum.splits)
  have 2: "fst (POST env) = Redirect u' 303"
    if "provider_interactionResult env (form_uid f) denied = Inr (Some s)" "s \<noteq> []"
      "new_URL env s (request_origin env) = Some u" "correctOIDCUrl env u = Inr u'" for s u u'
    using that assms(1) by (simp add: POST_loaded d getInteractionResult_def redirect_response_def)
  have 3: "st = 500 \<and> e = ''server_error''" if "fst (POST env) = Json st e ed" for st e ed
    using that assms(1)
    by (auto simp: POST_loaded d getInteractionResult_def redirect_response_def
        split: sum.splits option.splits if_splits)
  from 1 2 3 show ?thesis unfolding denied_def by blast
qed

theorem deny_resolves_access_denied_witness:
  "POST (sample_env (submission ''u2'' ''reject'')
           (Inr (sample_interaction ''consent'' (Some ''g1'') None)) (Inr None)
           (Some (stored_grant (Some ''acct-7''))) (Some ''/oidc/auth/u2'')) =
     (Redirect ''https://chat.example.com/oidc/auth/u2'' 303,
      [InteractionDetails (Some ''u2''),
       InteractionResult (Some ''u2'')
         \<lparr>login = None, consent = None, error = Some ''access_denied'',
          error_description = Some ''User denied the authorization request''\<rparr>])"
proof -
  let ?f = "submission ''u2'' ''reject''"
  let ?d = "sample_interaction ''consent'' (Some ''g1'') None"
  let ?env = "sample_env ?f (Inr ?d) (Inr None) (Some (stored_grant (Some ''acct-7'')))
      (Some ''/oidc/auth/u2'')"
  have l: "loaded ?env ?f ?d"
    by (simp add: loaded_def sample_env_def)
  have c: "form_consent ?f \<noteq> Some ''accept''"
    by (simp add: submission_def)
  note inst = deny_resolves_access_denied [OF l c]
  have r: "provider_interactionResult ?env (form_uid ?f) denied = Inr (Some ''/oidc/auth/u2'')"
    by (simp add: sample_env_def)
  have n: "''/oidc/auth/u2'' \<noteq> []"
    by simp
  have u: "new_URL ?env ''/oidc/auth/u2'' (request_origin ?env) =
      Some ''http://localhost:3210/oidc/auth/u2''"
    by (simp add: sample_env_def sample_new_URL_def)
  have k: "correctOIDCUrl ?env ''http://localhost:3210/oidc/auth/u2'' =
      Inr ''https://chat.example.com/oidc/auth/u2''"
    by (simp add: sample_env_def sample_correctOIDCUrl_def)
  have 1: "fst (POST ?env) = Redirect ''https://chat.example.com/oidc/auth/u2'' 303"
    using inst r n u k by blast
  have 2: "snd (POST ?env) =
      [InteractionDetails (Some ''u2''),
       InteractionResult (Some ''u2'')
         \<lparr>login = None, consent = None, error = Some ''access_denied'',
          error_description = Some ''User denied the authorization request''\<rparr>]"
    using inst by (simp add: submission_def)
  from 1 2 show ?thesis by (simp add: prod_eq_iff)
qed

section \<open>The consent path\<close>



lemma consent_result_for_forms:
  "consent_result_for d userId newGrantId =
     (if truthy (providerSessionAccountId d) \<and> providerSessionAccountId d \<noteq> Some userId
      then \<lparr>login = Some \<lparr>accountId = userId, remember = True\<rparr>,
            consent = Some \<lparr>consent_grantId = newGrantId\<rparr>,
            error = None, error_description = None\<rparr>
      else \<lparr>login = None, consent = Some \<lparr>consent_grantId = newGrantId\<rparr>,
            error = None, error_description = None\<rparr>)"
  by (simp add: consent_result_for_def consent_and_login_def consent_only_def)

text \<open>
  Claim C2, as the code has it. On the consent path of an accepted submission, every
  result handed to the finalize call is the combined form
  \<open>{consent: {grantId}, login: {accountId: userId, remember: true}}\<close> when the
  interaction's \<open>session.accountId\<close> is a non-empty string other than the user's id, and
  the plain form \<open>{consent: {grantId}}\<close> otherwise (no session account, an empty one, or
  the user's own). No other result is produced, and when the Grant lookup and the save
  succeed the finalize call is made with that result and the saved grant's id.
\<close>

theorem consent_accept_result_forms:
  assumes "loaded env f d" and "form_consent f = Some ''accept''"
    and "getUserAuth env = Inr (Some userId)" and "userId \<noteq> []"
    and "prompt_name (prompt d) \<noteq> ''login''"
  shows "(\<forall>uid r. InteractionResult uid r \<in> set (snd (POST env)) \<longrightarrow>
            (\<exists>newGrantId.
               r = (if truthy (providerSessionAccountId d) \<and> providerSessionAccountId d \<noteq> Some userId
                    then \<lparr>login = Some \<lparr>accountId = userId, remember = True\<rparr>,
                          consent = Some \<lparr>consent_grantId = newGrantId\<rparr>,
                          error = None, error_description = None\<rparr>
                    else \<lparr>login = None, consent = Some \<lparr>consent_grantId = newGrantId\<rparr>,
                          error = None, error_description = None\<rparr>)))
       \<and> (\<forall>g evs newGrantId.
            findOrCreateGrants env userId (params_client_id d) (grantId d) = (Inr g, evs) \<and>
            Grant_save env (merge_step (details (prompt d)) g) = Inr newGrantId \<longrightarrow>
            InteractionResult (form_uid f)
              (if truthy (providerSessionAccountId d) \<and> providerSessionAccountId d \<noteq> Some userId
               then \<lparr>login = Some \<lparr>accountId = userId, remember = True\<rparr>,
                     consent = Some \<lparr>consent_grantId = newGrantId\<rparr>,
                     error = None, error_description = None\<rparr>
               else \<lparr>login = None, consent = Some \<lparr>consent_grantId = newGrantId\<rparr>,
                     error = None, error_description = None\<rparr>)
              \<in> set (snd (POST env)))"
proof -
  have tr: "snd (POST env) =
     InteractionDetails (form_uid f) # GetUserAuth # snd (consent_branch env (form_uid f) userId d)"
    using assms by (rule accept_consent_trace)
  have 1: "\<exists>newGrantId. r = consent_result_for d userId newGrantId"
    if "InteractionResult uid r \<in> set (snd (POST env))" for uid r
    using that consent_branch_results[of uid r env "form_uid f" userId d] by (simp add: tr)
  have 2: "InteractionResult (form_uid f) (consent_result_for d userId newGrantId) \<in> set (snd (POST env))"
    if "findOrCreateGrants env userId (params_client_id d) (grantId d) = (Inr g, evs)"
      "Grant_save env (merge_step (details (prompt d)) g) = Inr newGrantId" for g evs newGrantId
    using that by (simp add: tr consent_branch_ok)
  from 1 2 show ?thesis
    unfolding consent_result_for_forms by blast
qed

theorem consent_accept_result_forms_witness:
  "InteractionResult (Some ''u3'')
      \<lparr>login = Some \<lparr>accountId = ''acct-B'', remember = True\<rparr>,
       consent = Some \<lparr>consent_grantId = ''g-new''\<rparr>,
       error = None, error_description = None\<rparr>
    \<in> set (snd (POST (sample_env (submission ''u3'' ''accept'')
           (Inr (sample_interaction ''consent'' None (Some \<lparr>session_accountId = Some ''acct-A''\<rparr>)))
           (Inr (Some ''acct-B'')) None (Some ''/oidc/auth/u3''))))"
proof -
  let ?f = "submission ''u3'' ''accept''"
  let ?d = "sample_interaction ''consent'' None (Some \<lparr>session_accountId = Some ''acct-A''\<rparr>)"
  let ?env = "sample_env ?f (Inr ?d) (Inr (Some ''acct-B'')) None (Some ''/oidc/auth/u3'')"
  let ?g = "new_Grant ''acct-B'' ''client-1''"
  have l: "loaded ?env ?f ?d"
    by (simp add: loaded_def sample_env_def)
  have a: "form_consent ?f = Some ''accept''"
    by (simp add: submission_def)
  have u: "getUserAuth ?env = Inr (Some ''acct-B'')"
    by (simp add: sample_env_def)
  have n: "''acct-B'' \<noteq> []"
    by simp
  have p: "prompt_name (prompt ?d) \<noteq> ''login''"
    by (simp add: sample_interaction_def)
  note inst = consent_accept_result_forms [OF l a u n p]
  have g: "findOrCreateGrants ?env ''acct-B'' (params_client_id ?d) (grantId ?d) =
      (Inr ?g, [GrantNew ''acct-B'' ''client-1''])"
    by (simp add: findOrCreateGrants_def find_existing_def sample_interaction_def)
  have j: "jti (merge_step (details (prompt ?d)) ?g) = None"
    by (simp add: merge_step_def add_resource_scopes_frame addOIDCClaims_def addOIDCScope_def
        new_Grant_def)
  have s: "Grant_save ?env (merge_step (details (prompt ?d)) ?g) = Inr ''g-new''"
    by (simp add: sample_env_def j)
  have ps: "providerSessionAccountId ?d = Some ''acct-A''"
    by (simp add: providerSessionAccountId_def sample_interaction_def)
  have "InteractionResult (form_uid ?f)
              (if truthy (providerSessionAccountId ?d) \<and> providerSessionAccountId ?d \<noteq> Some ''acct-B''
               then \<lparr>login = Some \<lparr>accountId = ''acct-B'', remember = True\<rparr>,
                     consent = Some \<lparr>consent_grantId = ''g-new''\<rparr>,
                     error = None, error_description = None\<rparr>
               else \<lparr>login = None, consent = Some \<lparr>consent_grantId = ''g-new''\<rparr>,
                     error = None, error_description = None\<rparr>)
              \<in> set (snd (POST ?env))"
    using inst g s by blast
  then show ?thesis by (simp add: ps submission_def)
qed

text \<open>
  Claim C2 as stated fails where the session's account id is present but empty: it differs
  from the user's id, and the result handed to the finalize call is the plain form, without
  a \<open>login\<close> key.
\<close>

theorem empty_session_account_counterexample:
  "providerSessionAccountId
      (sample_interaction ''consent'' None (Some \<lparr>session_accountId = Some ''''\<rparr>)) = Some ''''
   \<and> Some '''' \<noteq> Some ''acct-7''
   \<and> snd (POST (sample_env (submission ''u3'' ''accept'')
           (Inr (sample_interaction ''consent'' None (Some \<lparr>session_accountId = Some ''''\<rparr>)))
           (Inr (Some ''acct-7'')) None (Some ''/oidc/auth/u3''))) =
       [InteractionDetails (Some ''u3''), GetUserAuth, GrantNew ''acct-7'' ''client-1'',
        AddOIDCScope ''profile email'', AddOIDCClaims [''email''],
        AddResourceScope ''urn:api'' ''read write'',
        GrantSave (merge_step sample_details (new_Grant ''acct-7'' ''client-1'')),
        InteractionResult (Some ''u3'')
          \<lparr>login = None, consent = Some \<lparr>consent_grantId = ''g-new''\<rparr>,
           error = None, error_description = None\<rparr>]"
proof -
  let ?f = "submission ''u3'' ''accept''"
  let ?d = "sample_interaction ''consent'' None (Some \<lparr>session_accountId = Some ''''\<rparr>)"
  let ?env = "sample_env ?f (Inr ?d) (Inr (Some ''acct-7'')) None (Some ''/oidc/auth/u3'')"
  let ?g = "new_Grant ''acct-7'' ''client-1''"
  have l: "loaded ?env ?f ?d"
    by (simp add: loaded_def sample_env_def)
  have a: "form_consent ?f = Some ''accept''"
    by (simp add: submission_def)
  have u: "getUserAuth ?env = Inr (Some ''acct-7'')"
    by (simp add: sample_env_def)
  have n: "''acct-7'' \<noteq> []"
    by simp
  have p: "prompt_name (prompt ?d) \<noteq> ''login''"
    by (simp add: sample_interaction_def)
  have g: "findOrCreateGrants ?env ''acct-7'' (params_client_id ?d) (grantId ?d) =
      (Inr ?g, [GrantNew ''acct-7'' ''client-1''])"
    by (simp add: findOrCreateGrants_def find_existing_def sample_interaction_def)
  have j: "jti (merge_step (details (prompt ?d)) ?g) = None"
    by (simp add: merge_step_def add_resource_scopes_frame addOIDCClaims_def addOIDCScope_def
        new_Grant_def)
  have s: "Grant_save ?env (merge_step (details (prompt ?d)) ?g) = Inr ''g-new''"
    by (simp add: sample_env_def j)
  have dt: "details (prompt ?d) = sample_details"
    by (simp add: sample_interaction_def)
  have ev: "merge_events sample_details =
      [AddOIDCScope ''profile email'', AddOIDCClaims [''email''],
       AddResourceScope ''urn:api'' ''read write'']"
    by (simp add: merge_events_def sample_details_def or_empty_def)
  have ps: "providerSessionAccountId ?d = Some ''''"
    by (simp add: providerSessionAccountId_def sample_interaction_def)
  have tr: "snd (POST ?env) =
     InteractionDetails (form_uid ?f) # GetUserAuth # snd (consent_branch ?env (form_uid ?f) ''acct-7'' ?d)"
    using l a u n p by (rule accept_consent_trace)
  have "snd (consent_branch ?env (form_uid ?f) ''acct-7'' ?d) =
     [GrantNew ''acct-7'' ''client-1''] @ merge_events (details (prompt ?d)) @
     [GrantSave (merge_step (details (prompt ?d)) ?g),
      InteractionResult (form_uid ?f) (consent_result_for ?d ''acct-7'' ''g-new'')]"
    using g s by (rule consent_branch_ok)
  with tr have "snd (POST ?env) =
       [InteractionDetails (Some ''u3''), GetUserAuth, GrantNew ''acct-7'' ''client-1'',
        AddOIDCScope ''profile email'', AddOIDCClaims [''email''],
        AddResourceScope ''urn:api'' ''read write'',
        GrantSave (merge_step sample_details (new_Grant ''acct-7'' ''client-1'')),
        InteractionResult (Some ''u3'')
          \<lparr>login = None, consent = Some \<lparr>consent_grantId = ''g-new''\<rparr>,
           error = None, error_description = None\<rparr>]"
    by (simp add: dt ev ps consent_result_for_forms submission_def)
  with ps show ?thesis by simp
qed

section \<open>The redirect\<close>











section \<open>Finding or creating the grant\<close>

lemma findOrCreateGrants_owner:
  "findOrCreateGrants env a c existingGrantId = (Inr g, evs) \<Longrightarrow>
     \<not> truthy (grant_accountId g) \<or> grant_accountId g = Some a"
  by (auto simp: findOrCreateGrants_def find_existing_def new_Grant_def
      split: option.splits if_splits sum.splits prod.splits)

lemma consent_branch_saves:
  "GrantSave g' \<in> set (snd (consent_branch env uid a d)) \<Longrightarrow>
     \<exists>g evs. findOrCreateGrants env a (params_client_id d) (grantId d) = (Inr g, evs) \<and>
       g' = merge_step (details (prompt d)) g"
  by (auto simp: consent_branch_def getInteractionResult_def findOrCreateGrants_def
      find_existing_def merge_events_def Let_def
      split: prod.splits sum.splits option.splits if_splits)

lemma saved_grant_owner:
  assumes "GrantSave g' \<in> set (snd (consent_branch env uid a d))"
  shows "\<not> truthy (grant_accountId g') \<or> grant_accountId g' = Some a"
proof -
  from assms obtain g evs where
    found: "findOrCreateGrants env a (params_client_id d) (grantId d) = (Inr g, evs)"
    and g': "g' = merge_step (details (prompt d)) g"
    using consent_branch_saves by blast
  from found have "\<not> truthy (grant_accountId g) \<or> grant_accountId g = Some a"
    by (rule findOrCreateGrants_owner)
  then show ?thesis by (simp add: g' merge_step_owner)
qed

text \<open>
  Claim C1, as the code has it. When the grant found under \<open>existingGrantId\<close> carries a
  non-empty account id other than the caller's, \<open>findOrCreateGrants\<close> drops it and returns
  a fresh Grant made from exactly the caller's account and the client. A grant that was
  loaded by id is returned only if its account id is absent, empty, or the caller's own,
  and so is every grant that the consent path changes and saves.
\<close>

theorem mismatched_grant_discarded:
  "(\<forall>gid g. existingGrantId = Some gid \<and> gid \<noteq> [] \<and> Grant_find env gid = Inr (Some g) \<and>
       truthy (grant_accountId g) \<and> grant_accountId g \<noteq> Some a \<longrightarrow>
       findOrCreateGrants env a c existingGrantId = (Inr (new_Grant a c), [GrantFind gid, GrantNew a c]))
   \<and> grant_accountId (new_Grant a c) = Some a \<and> grant_clientId (new_Grant a c) = Some c
   \<and> (\<forall>g evs. findOrCreateGrants env a c existingGrantId = (Inr g, evs) \<longrightarrow>
        (g = new_Grant a c \<and> GrantNew a c \<in> set evs) \<or>
        (\<exists>gid. existingGrantId = Some gid \<and> Grant_find env gid = Inr (Some g) \<and> evs = [GrantFind gid] \<and>
           (\<not> truthy (grant_accountId g) \<or> grant_accountId g = Some a)))
   \<and> (\<forall>uid d g'. GrantSave g' \<in> set (snd (consent_branch env uid a d)) \<longrightarrow>
        \<not> truthy (grant_accountId g') \<or> grant_accountId g' = Some a)"
proof -
  have "\<forall>uid d g'. GrantSave g' \<in> set (snd (consent_branch env uid a d)) \<longrightarrow>
        \<not> truthy (grant_accountId g') \<or> grant_accountId g' = Some a"
    using saved_grant_owner by blast
  moreover have "\<forall>gid g. existingGrantId = Some gid \<and> gid \<noteq> [] \<and> Grant_find env gid = Inr (Some g) \<and>
       truthy (grant_accountId g) \<and> grant_accountId g \<noteq> Some a \<longrightarrow>
       findOrCreateGrants env a c existingGrantId = (Inr (new_Grant a c), [GrantFind gid, GrantNew a c])"
    by (auto simp: findOrCreateGrants_def find_existing_def)
  moreover have "grant_accountId (new_Grant a c) = Some a \<and> grant_clientId (new_Grant a c) = Some c"
    by (simp add: new_Grant_def)
  moreover have "\<forall>g evs. findOrCreateGrants env a c existingGrantId = (Inr g, evs) \<longrightarrow>
        (g = new_Grant a c \<and> GrantNew a c \<in> set evs) \<or>
        (\<exists>gid. existingGrantId = Some gid \<and> Grant_find env gid = Inr (Some g) \<and> evs = [GrantFind gid] \<and>
           (\<not> truthy (grant_accountId g) \<or> grant_accountId g = Some a))"
    by (auto simp: findOrCreateGrants_def find_existing_def
        split: option.splits if_splits sum.splits prod.splits)
  ultimately show ?thesis by blast
qed

theorem mismatched_grant_discarded_witness:
  "findOrCreateGrants
      (sample_env (submission ''u3'' ''accept'') (Inr (sample_interaction ''consent'' (Some ''g1'') None))
         (Inr (Some ''acct-B'')) (Some (stored_grant (Some ''acct-A''))) (Some ''/oidc/auth/u3''))
      ''acct-B'' ''client-1'' (Some ''g1'') =
     (Inr (new_Grant ''acct-B'' ''client-1''), [GrantFind ''g1'', GrantNew ''acct-B'' ''client-1''])
   \<and> grant_accountId (new_Grant ''acct-B'' ''client-1'') = Some ''acct-B''"
proof -
  let ?env = "sample_env (submission ''u3'' ''accept'')
      (Inr (sample_interaction ''consent'' (Some ''g1'') None))
      (Inr (Some ''acct-B'')) (Some (stored_grant (Some ''acct-A''))) (Some ''/oidc/auth/u3'')"
  note inst = mismatched_grant_discarded [of "Some ''g1''" ?env "''acct-B''" "''client-1''"]
  have n: "''g1'' \<noteq> []"
    by simp
  have f: "Grant_find ?env ''g1'' = Inr (Some (stored_grant (Some ''acct-A'')))"
    by (simp add: sample_env_def)
  have t: "truthy (grant_accountId (stored_grant (Some ''acct-A'')))"
    by (simp add: stored_grant_def)
  have m: "grant_accountId (stored_grant (Some ''acct-A'')) \<noteq> Some ''acct-B''"
    by (simp add: stored_grant_def)
  have 1: "findOrCreateGrants ?env ''acct-B'' ''client-1'' (Some ''g1'') =
     (Inr (new_Grant ''acct-B'' ''client-1''), [GrantFind ''g1'', GrantNew ''acct-B'' ''client-1''])"
    using inst n f t m by blast
  have 2: "grant_accountId (new_Grant ''acct-B'' ''client-1'') = Some ''acct-B''"
    using inst by blast
  from 1 2 show ?thesis by simp
qed

text \<open>
  Claim C1 as stated fails for a stored grant whose account id is the empty string: it
  differs from the caller's account, yet the grant is returned for reuse, and no fresh
  Grant is constructed.
\<close>

theorem blank_owner_grant_counterexample:
  "grant_accountId (stored_grant (Some '''')) \<noteq> Some ''acct-B''
   \<and> findOrCreateGrants
      (sample_env (submission ''u3'' ''accept'') (Inr (sample_interaction ''consent'' (Some ''g1'') None))
         (Inr (Some ''acct-B'')) (Some (stored_grant (Some ''''))) (Some ''/oidc/auth/u3''))
      ''acct-B'' ''client-1'' (Some ''g1'') =
     (Inr (stored_grant (Some '''')), [GrantFind ''g1''])
   \<and> stored_grant (Some '''') \<noteq> new_Grant ''acct-B'' ''client-1''"
  by (simp add: findOrCreateGrants_def find_existing_def sample_env_def stored_grant_def
      new_Grant_def)

text \<open>
  Claim C10. With a non-empty \<open>existingGrantId\<close> under which the store holds a grant, the
  grant is dropped exactly when its account id is non-empty and differs from the caller's.
  A grant whose account id is absent or empty passes the check for every caller: it is
  returned as it was loaded, no fresh Grant is made, and the consent path goes on to change
  and save that grant.
\<close>

theorem falsy_account_grant_reused:
  assumes "gid \<noteq> []" and "Grant_find env gid = Inr (Some g)"
  shows "(\<not> truthy (grant_accountId g) \<longrightarrow>
            findOrCreateGrants env a c (Some gid) = (Inr g, [GrantFind gid]))
       \<and> (findOrCreateGrants env a c (Some gid) = (Inr g, [GrantFind gid]) \<longleftrightarrow>
            \<not> (truthy (grant_accountId g) \<and> grant_accountId g \<noteq> Some a))
       \<and> (\<not> truthy (grant_accountId g) \<and> grantId d = Some gid \<longrightarrow>
            GrantSave (merge_step (details (prompt d)) g) \<in> set (snd (consent_branch env uid a d)))"
  using assms
  by (auto simp: findOrCreateGrants_def find_existing_def consent_branch_def Let_def
      split: option.splits if_splits sum.splits prod.splits)

theorem falsy_account_grant_reused_witness:
  "findOrCreateGrants
      (sample_env (submission ''u3'' ''accept'') (Inr (sample_interaction ''consent'' (Some ''g1'') None))
         (Inr (Some ''acct-B'')) (Some (stored_grant None)) (Some ''/oidc/auth/u3''))
      ''acct-B'' ''client-1'' (Some ''g1'') =
     (Inr (stored_grant None), [GrantFind ''g1''])
   \<and> GrantSave (merge_step sample_details (stored_grant None))
       \<in> set (snd (consent_branch
           (sample_env (submission ''u3'' ''accept'')
              (Inr (sample_interaction ''consent'' (Some ''g1'') None))
              (Inr (Some ''acct-B'')) (Some (stored_grant None)) (Some ''/oidc/auth/u3''))
           (Some ''u3'') ''acct-B'' (sample_interaction ''consent'' (Some ''g1'') None)))"
proof -
  let ?d = "sample_interaction ''consent'' (Some ''g1'') None"
  let ?env = "sample_env (submission ''u3'' ''accept'') (Inr ?d)
      (Inr (Some ''acct-B'')) (Some (stored_grant None)) (Some ''/oidc/auth/u3'')"
  have n: "''g1'' \<noteq> []"
    by simp
  have f: "Grant_find ?env ''g1'' = Inr (Some (stored_grant None))"
    by (simp add: sample_env_def)
  note inst = falsy_account_grant_reused [OF n f, of "''acct-B''" "''client-1''" ?d "Some ''u3''"]
  have t: "\<not> truthy (grant_accountId (stored_grant None))"
    by (simp add: stored_grant_def)
  have i: "grantId ?d = Some ''g1''"
    by (simp add: sample_interaction_def)
  have dt: "details (prompt ?d) = sample_details"
    by (simp add: sample_interaction_def)
  have 1: "findOrCreateGrants ?env ''acct-B'' ''client-1'' (Some ''g1'') =
      (Inr (stored_grant None), [GrantFind ''g1''])"
    using inst t by blast
  have "GrantSave (merge_step (details (prompt ?d)) (stored_grant None))
      \<in> set (snd (consent_branch ?env (Some ''u3'') ''acct-B'' ?d))"
    using inst t i by blast
  then have 2: "GrantSave (merge_step sample_details (stored_grant None))
      \<in> set (snd (consent_branch ?env (Some ''u3'') ''acct-B'' ?d))"
    by (simp only: dt)
  from 1 2 show ?thesis by simp
qed

end
